theory Spec2Isabelle
  imports Main "HOL-Library.AList"
begin

section \<open>JavaScript values and strings\<close>

text \<open>
  A JavaScript string is a sequence of UTF-16 code units and \<open>length\<close> counts code
  units, so a string is a list of code-unit values. The identifiers and messages of
  the application with an accented letter are written out as code units (the source
  files hold them in composed form: o-acute is 243, e-circumflex 234, a-tilde 227,
  a-acute 225, e-acute 233).

  A request body is parsed JSON, so a field holds \<open>undefined\<close> (absent), \<open>null\<close>, a
  boolean, a number, a string, or an object or array. Numbers are modelled as
  integers: JavaScript represents every integer of magnitude below \<open>2^53\<close> exactly, and
  a fractional number takes the same branches as a non-zero integer in all the code
  modelled here. An object or array is opaque (\<open>JObj\<close>): it is truthy, it is not a
  string, and it has no callable \<open>trim\<close>.
\<close>

type_synonym jsstring = "nat list"

datatype jsval = JUndefined | JNull | JBool bool | JNum int | JStr jsstring | JObj

definition of_ascii :: "string \<Rightarrow> jsstring" where
  "of_ascii s = map of_char s"

fun truthy :: "jsval \<Rightarrow> bool" where
  "truthy JUndefined = False"
| "truthy JNull = False"
| "truthy (JBool b) = b"
| "truthy (JNum n) = (n \<noteq> 0)"
| "truthy (JStr s) = (s \<noteq> [])"
| "truthy JObj = True"

text \<open>The code units that \<open>String.prototype.trim\<close> strips (white space and line
  terminators of ECMAScript).\<close>

definition isWhiteSpace :: "nat \<Rightarrow> bool" where
  "isWhiteSpace c =
     (c \<in> set [9, 10, 11, 12, 13, 32, 160, 5760, 8232, 8233, 8239, 8287, 12288, 65279]
      \<or> (8192 \<le> c \<and> c \<le> 8202))"

definition js_trim :: "jsstring \<Rightarrow> jsstring" where
  "js_trim s = rev (dropWhile isWhiteSpace (rev (dropWhile isWhiteSpace s)))"

text \<open>\<open>s.includes(p)\<close>: \<open>p\<close> occurs in \<open>s\<close> as a contiguous run.\<close>

fun starts_with :: "jsstring \<Rightarrow> jsstring \<Rightarrow> bool" where
  "starts_with s [] = True"
| "starts_with [] (p # ps) = False"
| "starts_with (x # xs) (p # ps) = (x = p \<and> starts_with xs ps)"

fun js_includes :: "jsstring \<Rightarrow> jsstring \<Rightarrow> bool" where
  "js_includes [] p = (p = [])"
| "js_includes (x # xs) p = (starts_with (x # xs) p \<or> js_includes xs p)"

text \<open>A thrown exception: a \<open>TypeError\<close> raised by the engine (calling a \<open>trim\<close>
  that is not a function), or an \<open>Error\<close> object with its message.\<close>

datatype js_error = TypeError | Error jsstring

section \<open>Backend service: validation and sanitization\<close>

record atendimento =
  nome :: jsval
  profissional :: jsval
  data :: jsval
  tipo :: jsval
  observacoes :: jsval

record validation =
  isValid :: bool
  errors :: "jsstring list"

definition tiposValidos :: "jsstring list" where
  "tiposValidos =
    [[80, 115, 105, 99, 111, 108, 243, 103, 105, 99, 111],
     [80, 101, 100, 97, 103, 243, 103, 105, 99, 111],
     [65, 115, 115, 105, 115, 116, 234, 110, 99, 105, 97, 32, 83, 111, 99, 105, 97, 108]]"

definition msg_nome :: jsstring where
  "msg_nome = of_ascii ''Nome deve ter pelo menos 2 caracteres''"

definition msg_profissional :: jsstring where
  "msg_profissional = of_ascii ''Profissional deve ter pelo menos 2 caracteres''"

definition msg_data_obrigatoria :: jsstring where
  "msg_data_obrigatoria =
     [68, 97, 116, 97, 32, 233, 32, 111, 98, 114, 105, 103, 97, 116, 243, 114, 105, 97]"

definition msg_data_futura :: jsstring where
  "msg_data_futura =
     [68, 97, 116, 97, 32, 110, 227, 111, 32, 112, 111, 100, 101, 32, 115, 101, 114, 32,
      102, 117, 116, 117, 114, 97]"

definition msg_tipo :: jsstring where
  "msg_tipo =
     [84, 105, 112, 111, 32, 100, 101, 118, 101, 32, 115, 101, 114, 58, 32, 80, 115, 105,
      99, 111, 108, 243, 103, 105, 99, 111, 44, 32, 80, 101, 100, 97, 103, 243, 103, 105,
      99, 111, 32, 111, 117, 32, 65, 115, 115, 105, 115, 116, 234, 110, 99, 105, 97, 32,
      83, 111, 99, 105, 97, 108]"

text \<open>The test \<open>!x || x.trim().length < 2\<close> of the name fields. A falsy value is
  rejected without a call; a non-empty string is trimmed and measured; any other
  truthy value has no \<open>trim\<close> to call.\<close>

definition too_short :: "jsval \<Rightarrow> js_error + bool" where
  "too_short x =
     (if \<not> truthy x then Inr True
      else case x of JStr s \<Rightarrow> Inr (length (js_trim s) < 2) | _ \<Rightarrow> Inl TypeError)"

text \<open>\<open>new Date(data) > new Date()\<close>. The \<open>Date\<close> constructor belongs to the host:
  \<open>newDate\<close> gives the time value in milliseconds of the date built from a value, or
  \<open>None\<close> for an invalid date (time value NaN, for which every comparison is false);
  \<open>now\<close> is the time value of the current instant.\<close>

definition is_future :: "(jsval \<Rightarrow> int option) \<Rightarrow> int \<Rightarrow> jsval \<Rightarrow> bool" where
  "is_future newDate now d = (case newDate d of None \<Rightarrow> False | Some t \<Rightarrow> now < t)"

definition includes_tipo :: "jsval \<Rightarrow> bool" where
  "includes_tipo t = (case t of JStr s \<Rightarrow> s \<in> set tiposValidos | _ \<Rightarrow> False)"

definition validateAtendimento ::
  "(jsval \<Rightarrow> int option) \<Rightarrow> int \<Rightarrow> atendimento \<Rightarrow> js_error + validation" where
  "validateAtendimento newDate now a =
     (case too_short (nome a) of
        Inl e \<Rightarrow> Inl e
      | Inr bad_nome \<Rightarrow>
     (case too_short (profissional a) of
        Inl e \<Rightarrow> Inl e
      | Inr bad_profissional \<Rightarrow>
          (let errs =
                 (if bad_nome then [msg_nome] else [])
               @ (if bad_profissional then [msg_profissional] else [])
               @ (if \<not> truthy (data a) then [msg_data_obrigatoria]
                  else if is_future newDate now (data a) then [msg_data_futura]
                  else [])
               @ (if \<not> truthy (tipo a) \<or> \<not> includes_tipo (tipo a) then [msg_tipo]
                  else [])
           in Inr \<lparr>isValid = (length errs = 0), errors = errs\<rparr>)))"

text \<open>\<open>x?.trim()\<close>: \<open>undefined\<close> for an absent or null field, the trimmed string for
  a string, a \<open>TypeError\<close> for any other value.\<close>

definition opt_trim :: "jsval \<Rightarrow> js_error + jsval" where
  "opt_trim x =
     (case x of
        JUndefined \<Rightarrow> Inr JUndefined
      | JNull \<Rightarrow> Inr JUndefined
      | JStr s \<Rightarrow> Inr (JStr (js_trim s))
      | _ \<Rightarrow> Inl TypeError)"

definition sanitizeAtendimento :: "atendimento \<Rightarrow> js_error + atendimento" where
  "sanitizeAtendimento a =
     (case opt_trim (nome a) of Inl e \<Rightarrow> Inl e | Inr n \<Rightarrow>
     (case opt_trim (profissional a) of Inl e \<Rightarrow> Inl e | Inr p \<Rightarrow>
     (case opt_trim (tipo a) of Inl e \<Rightarrow> Inl e | Inr t \<Rightarrow>
     (case opt_trim (observacoes a) of Inl e \<Rightarrow> Inl e | Inr ob \<Rightarrow>
        Inr \<lparr>nome = n, profissional = p, data = data a, tipo = t,
             observacoes = (if truthy ob then ob else JStr [])\<rparr>))))"

text \<open>The two steps as \<open>AtendimentoService.create\<close> and \<open>update\<close> chain them.\<close>

definition sanitize_then_validate ::
  "(jsval \<Rightarrow> int option) \<Rightarrow> int \<Rightarrow> atendimento \<Rightarrow> js_error + validation" where
  "sanitize_then_validate newDate now a =
     (case sanitizeAtendimento a of
        Inl e \<Rightarrow> Inl e
      | Inr s \<Rightarrow> validateAtendimento newDate now s)"







text \<open>A date table for examples: the time values JavaScript gives to two ISO dates
  (midnight UTC), every other value being taken as an invalid date.\<close>

definition sample_newDate :: "jsval \<Rightarrow> int option" where
  "sample_newDate d =
     (if d = JStr (of_ascii ''2024-01-15'') then Some 1705276800000
      else if d = JStr (of_ascii ''2999-01-01'') then Some 32472144000000
      else None)"

definition sample_now :: int where
  "sample_now = 1793577600000"

definition sample_body :: atendimento where
  "sample_body =
     \<lparr>nome = JStr (of_ascii ''Maria Silva''), profissional = JStr (of_ascii ''Ana Costa''),
      data = JStr (of_ascii ''2024-01-15''),
      tipo = JStr [80, 101, 100, 97, 103, 243, 103, 105, 99, 111],
      observacoes = JStr (of_ascii ''ok'')\<rparr>"

definition long_body :: atendimento where
  "long_body = sample_body\<lparr>observacoes := JStr (replicate 501 97)\<rparr>"

section \<open>parseInt\<close>

text \<open>
  \<open>parseInt(string)\<close> without a radix, after ECMAScript: leading white space is
  skipped, one sign is read, a prefix \<open>0x\<close> or \<open>0X\<close> selects radix 16 and is removed,
  and the longest run of digits of the radix is converted; an empty run gives NaN
  (\<open>None\<close>). The result is the mathematical integer (JavaScript rounds it to a double
  beyond \<open>2^53\<close>).
\<close>

definition digitValue :: "nat \<Rightarrow> nat" where
  "digitValue c =
     (if 48 \<le> c \<and> c \<le> 57 then c - 48
      else if 97 \<le> c \<and> c \<le> 122 then c - 87
      else if 65 \<le> c \<and> c \<le> 90 then c - 55
      else 36)"

definition isDigit :: "nat \<Rightarrow> nat \<Rightarrow> bool" where
  "isDigit R c = (digitValue c < R)"

definition digitsToNat :: "nat \<Rightarrow> jsstring \<Rightarrow> nat" where
  "digitsToNat R z = foldl (\<lambda>acc c. acc * R + digitValue c) 0 z"

definition hasHexPrefix :: "jsstring \<Rightarrow> bool" where
  "hasHexPrefix s = (starts_with s [48, 120] \<or> starts_with s [48, 88])"

definition parseInt :: "jsstring \<Rightarrow> int option" where
  "parseInt str =
     (let s1 = dropWhile isWhiteSpace str;
          negative = (s1 \<noteq> [] \<and> hd s1 = 45);
          s2 = (if s1 \<noteq> [] \<and> (hd s1 = 43 \<or> hd s1 = 45) then tl s1 else s1);
          R = (if hasHexPrefix s2 then 16 else 10);
          s3 = (if hasHexPrefix s2 then drop 2 s2 else s2);
          z = takeWhile (isDigit R) s3
      in if z = [] then None
         else Some ((if negative then - 1 else 1) * int (digitsToNat R z)))"

section \<open>The PostgreSQL table\<close>

record row =
  r_id :: int
  r_nome :: jsval
  r_profissional :: jsval
  r_data :: jsval
  r_tipo :: jsval
  r_observacoes :: jsval
  created_at :: int
  updated_at :: int

datatype statement =
    SelectById int
  | Insert atendimento
  | Update atendimento int
  | DeleteById int

text \<open>
  Modelled from the spec: the database server behind \<open>db.query\<close> (\<open>pool.query\<close> in
  server-postgres.js), which is not part of the repository. It holds the one table
  \<open>atendimento\<close> and runs the four parameterized statements of the service:
  \<open>SELECT * ... WHERE id = $1\<close>, \<open>INSERT ... RETURNING *\<close> (the id comes from the
  \<open>SERIAL\<close> sequence, both timestamps from the server clock),
  \<open>UPDATE ... WHERE id = $6 RETURNING *\<close> and \<open>DELETE ... WHERE id = $1 RETURNING\<close>.
  A statement the server refuses (lost connection, a violated constraint, a value it
  cannot convert) makes \<open>query\<close> throw an error with the server's message and leaves
  the table as it was: \<open>refuses\<close> tells which statements those are and is not fixed
  here. \<open>issued\<close> records every statement sent.
\<close>

record database =
  rows :: "row list"
  nextval :: int
  clock :: int
  issued :: "statement list"
  refuses :: "statement \<Rightarrow> jsstring option"

definition set_row :: "atendimento \<Rightarrow> int \<Rightarrow> row \<Rightarrow> row" where
  "set_row a t r =
     r\<lparr>r_nome := nome a, r_profissional := profissional a, r_data := data a,
       r_tipo := tipo a, r_observacoes := observacoes a, updated_at := t\<rparr>"

definition new_row :: "atendimento \<Rightarrow> int \<Rightarrow> int \<Rightarrow> row" where
  "new_row a i t =
     \<lparr>r_id = i, r_nome = nome a, r_profissional = profissional a, r_data = data a,
      r_tipo = tipo a, r_observacoes = observacoes a, created_at = t, updated_at = t\<rparr>"

definition query :: "statement \<Rightarrow> database \<Rightarrow> (jsstring + row list) \<times> database" where
  "query st db =
     (let sent = db\<lparr>issued := issued db @ [st]\<rparr> in
      case refuses db st of
        Some m \<Rightarrow> (Inl m, sent)
      | None \<Rightarrow>
         (case st of
            SelectById i \<Rightarrow> (Inr (filter (\<lambda>r. r_id r = i) (rows db)), sent)
          | Insert a \<Rightarrow>
              (Inr [new_row a (nextval db) (clock db)],
               sent\<lparr>rows := rows db @ [new_row a (nextval db) (clock db)],
                    nextval := nextval db + 1\<rparr>)
          | Update a i \<Rightarrow>
              (Inr (map (set_row a (clock db)) (filter (\<lambda>r. r_id r = i) (rows db))),
               sent\<lparr>rows := map (\<lambda>r. if r_id r = i then set_row a (clock db) r else r)
                                 (rows db)\<rparr>)
          | DeleteById i \<Rightarrow>
              (Inr (filter (\<lambda>r. r_id r = i) (rows db)),
               sent\<lparr>rows := filter (\<lambda>r. r_id r \<noteq> i) (rows db)\<rparr>)))"

section \<open>Backend service: CRUD\<close>

record api_atendimento =
  a_id :: int
  a_nome :: jsval
  a_profissional :: jsval
  a_data :: jsstring
  a_dataISO :: jsval
  a_tipo :: jsval
  a_observacoes :: jsval
  a_createdAt :: int
  a_updatedAt :: int

text \<open>\<open>formatDate\<close> of the service: the empty string for a falsy value, otherwise
  \<open>new Date(dataISO).toLocaleDateString('pt-BR')\<close>, which belongs to the host and is
  the parameter \<open>toLocale\<close>.\<close>

definition formatDate :: "(jsval \<Rightarrow> jsstring) \<Rightarrow> jsval \<Rightarrow> jsstring" where
  "formatDate toLocale dataISO = (if \<not> truthy dataISO then [] else toLocale dataISO)"

definition mapAtendimentoToResponse :: "(jsval \<Rightarrow> jsstring) \<Rightarrow> row \<Rightarrow> api_atendimento" where
  "mapAtendimentoToResponse toLocale r =
     \<lparr>a_id = r_id r, a_nome = r_nome r, a_profissional = r_profissional r,
      a_data = formatDate toLocale (r_data r), a_dataISO = r_data r, a_tipo = r_tipo r,
      a_observacoes = r_observacoes r, a_createdAt = created_at r,
      a_updatedAt = updated_at r\<rparr>"

definition dados_invalidos :: jsstring where
  "dados_invalidos = [68, 97, 100, 111, 115, 32, 105, 110, 118, 225, 108, 105, 100, 111, 115]"


definition erro_criar :: jsstring where
  "erro_criar = of_ascii ''Erro ao criar atendimento: ''"

definition erro_atualizar :: jsstring where
  "erro_atualizar = of_ascii ''Erro ao atualizar atendimento: ''"

definition erro_deletar :: jsstring where
  "erro_deletar = of_ascii ''Erro ao deletar atendimento: ''"

text \<open>The text of the engine's \<open>TypeError\<close> when \<open>result.rows[0]\<close> is undefined.\<close>

definition no_row_message :: jsstring where
  "no_row_message = of_ascii ''Cannot read properties of undefined''"

text \<open>\<open>errors.join(', ')\<close>.\<close>

fun join_comma :: "jsstring list \<Rightarrow> jsstring" where
  "join_comma [] = []"
| "join_comma [x] = x"
| "join_comma (x # y # ys) = x @ [44, 32] @ join_comma (y # ys)"


definition service_create ::
  "(jsval \<Rightarrow> int option) \<Rightarrow> int \<Rightarrow> (jsval \<Rightarrow> jsstring) \<Rightarrow> atendimento \<Rightarrow> database
     \<Rightarrow> (js_error + api_atendimento) \<times> database" where
  "service_create newDate now toLocale atendimentoData db =
     (case sanitizeAtendimento atendimentoData of
        Inl e \<Rightarrow> (Inl e, db)
      | Inr sanitized \<Rightarrow>
     (case validateAtendimento newDate now sanitized of
        Inl e \<Rightarrow> (Inl e, db)
      | Inr v \<Rightarrow>
          if \<not> isValid v
          then (Inl (Error (dados_invalidos @ [58, 32] @ join_comma (errors v))), db)
          else (case query (Insert sanitized) db of
                  (Inl m, db') \<Rightarrow> (Inl (Error (erro_criar @ m)), db')
                | (Inr [], db') \<Rightarrow> (Inl (Error (erro_criar @ no_row_message)), db')
                | (Inr (r # rs), db') \<Rightarrow> (Inr (mapAtendimentoToResponse toLocale r), db'))))"

definition service_update ::
  "(jsval \<Rightarrow> int option) \<Rightarrow> int \<Rightarrow> (jsval \<Rightarrow> jsstring) \<Rightarrow> int \<Rightarrow> atendimento \<Rightarrow> database
     \<Rightarrow> (js_error + api_atendimento option) \<times> database" where
  "service_update newDate now toLocale i atendimentoData db =
     (case sanitizeAtendimento atendimentoData of
        Inl e \<Rightarrow> (Inl e, db)
      | Inr sanitized \<Rightarrow>
     (case validateAtendimento newDate now sanitized of
        Inl e \<Rightarrow> (Inl e, db)
      | Inr v \<Rightarrow>
          if \<not> isValid v
          then (Inl (Error (dados_invalidos @ [58, 32] @ join_comma (errors v))), db)
          else (case query (Update sanitized i) db of
                  (Inl m, db') \<Rightarrow> (Inl (Error (erro_atualizar @ m)), db')
                | (Inr [], db') \<Rightarrow> (Inr None, db')
                | (Inr (r # rs), db') \<Rightarrow>
                    (Inr (Some (mapAtendimentoToResponse toLocale r)), db'))))"

definition service_delete :: "int \<Rightarrow> database \<Rightarrow> (js_error + bool) \<times> database" where
  "service_delete i db =
     (case query (DeleteById i) db of
        (Inl m, db') \<Rightarrow> (Inl (Error (erro_deletar @ m)), db')
      | (Inr rs, db') \<Rightarrow> (Inr (0 < length rs), db'))"

section \<open>Backend controller\<close>

text \<open>A JSON response: the HTTP status and the members \<open>success\<close>, \<open>data\<close> and
  \<open>message\<close> of the body. The member \<open>error\<close> that the 500 bodies of the controller
  add (the text of the caught exception) is left out.\<close>

record 'p response =
  status :: nat
  success :: bool
  payload :: "'p option"
  message :: "jsstring option"

definition id_invalido :: jsstring where
  "id_invalido = [73, 68, 32, 105, 110, 118, 225, 108, 105, 100, 111]"

definition nao_encontrado :: jsstring where
  "nao_encontrado =
     [65, 116, 101, 110, 100, 105, 109, 101, 110, 116, 111, 32, 110, 227, 111, 32, 101,
      110, 99, 111, 110, 116, 114, 97, 100, 111]"

definition erro_interno :: jsstring where
  "erro_interno = of_ascii ''Erro interno do servidor''"

definition bad_id :: "'p response" where
  "bad_id = \<lparr>status = 400, success = False, payload = None, message = Some id_invalido\<rparr>"

definition not_found :: "'p response" where
  "not_found =
     \<lparr>status = 404, success = False, payload = None, message = Some nao_encontrado\<rparr>"

definition internal_error :: "'p response" where
  "internal_error =
     \<lparr>status = 500, success = False, payload = None, message = Some erro_interno\<rparr>"

definition bad_request :: "jsstring \<Rightarrow> 'p response" where
  "bad_request m = \<lparr>status = 400, success = False, payload = None, message = Some m\<rparr>"





definition controller_destroy ::
  "jsstring \<Rightarrow> database \<Rightarrow> api_atendimento response \<times> database" where
  "controller_destroy ident db =
     (case (if ident = [] then None else parseInt ident) of
        None \<Rightarrow> (bad_id, db)
      | Some i \<Rightarrow>
         (case service_delete i db of
            (Inl e, db') \<Rightarrow> (internal_error, db')
          | (Inr False, db') \<Rightarrow> (not_found, db')
          | (Inr True, db') \<Rightarrow>
              (\<lparr>status = 200, success = True, payload = None,
                message = Some (of_ascii ''Atendimento deletado com sucesso'')\<rparr>, db')))"

section \<open>The raw PostgreSQL server (server-postgres.js)\<close>


section \<open>The in-memory mock server\<close>

record mock_record =
  m_id :: int
  m_nome :: jsval
  m_profissional :: jsval
  m_data :: jsval
  m_dataISO :: jsval
  m_tipo :: jsval
  m_observacoes :: jsval

record mock_state =
  atendimentos :: "mock_record list"
  nextId :: int

definition mock_init :: mock_state where
  "mock_init =
    \<lparr>atendimentos =
      [\<lparr>m_id = 1, m_nome = JStr (of_ascii ''Maria Silva''),
        m_profissional = JStr [68, 114, 46, 32, 74, 111, 227, 111, 32, 83, 97, 110, 116, 111, 115],
        m_data = JStr (of_ascii ''2024-01-15''), m_dataISO = JStr (of_ascii ''2024-01-15''),
        m_tipo = JStr [80, 115, 105, 99, 111, 108, 243, 103, 105, 99, 111],
        m_observacoes = JStr (of_ascii ''Primeira consulta - ansiedade'')\<rparr>,
       \<lparr>m_id = 2, m_nome = JStr (of_ascii ''Pedro Oliveira''),
        m_profissional = JStr (of_ascii ''Ana Costa''),
        m_data = JStr (of_ascii ''2024-01-16''), m_dataISO = JStr (of_ascii ''2024-01-16''),
        m_tipo = JStr [65, 115, 115, 105, 115, 116, 234, 110, 99, 105, 97, 32, 83, 111, 99,
                       105, 97, 108],
        m_observacoes = JStr [79, 114, 105, 101, 110, 116, 97, 231, 227, 111, 32, 115, 111,
                              98, 114, 101, 32, 98, 101, 110, 101, 102, 237, 99, 105, 111,
                              115, 32, 115, 111, 99, 105, 97, 105, 115]\<rparr>,
       \<lparr>m_id = 3, m_nome = JStr (of_ascii ''Carla Souza''),
        m_profissional = JStr (of_ascii ''Prof. Rita Lima''),
        m_data = JStr (of_ascii ''2024-01-17''), m_dataISO = JStr (of_ascii ''2024-01-17''),
        m_tipo = JStr [80, 101, 100, 97, 103, 243, 103, 105, 99, 111],
        m_observacoes = JStr (of_ascii ''Dificuldades de aprendizagem'')\<rparr>],
     nextId = 4\<rparr>"

text \<open>The four checks of the POST and PUT handlers, each with its early return:
  \<open>Inr (Some m)\<close> is the 400 answer with message \<open>m\<close>, \<open>Inr None\<close> lets the request
  through, \<open>Inl\<close> is an exception, which the handler's \<open>catch\<close> turns into 500.\<close>

definition mock_validate :: "atendimento \<Rightarrow> js_error + jsstring option" where
  "mock_validate body =
     (case too_short (nome body) of
        Inl e \<Rightarrow> Inl e
      | Inr bad_nome \<Rightarrow>
          if bad_nome then Inr (Some msg_nome)
          else (case too_short (profissional body) of
                  Inl e \<Rightarrow> Inl e
                | Inr bad_profissional \<Rightarrow>
                    if bad_profissional then Inr (Some msg_profissional)
                    else if \<not> truthy (data body) then Inr (Some msg_data_obrigatoria)
                    else if \<not> truthy (tipo body) \<or> \<not> includes_tipo (tipo body)
                    then Inr (Some msg_tipo)
                    else Inr None))"

text \<open>\<open>x.trim()\<close> and \<open>x ? x.trim() : ''\<close>.\<close>

definition trim_call :: "jsval \<Rightarrow> js_error + jsval" where
  "trim_call x = (case x of JStr s \<Rightarrow> Inr (JStr (js_trim s)) | _ \<Rightarrow> Inl TypeError)"

definition trim_or_empty :: "jsval \<Rightarrow> js_error + jsval" where
  "trim_or_empty x = (if truthy x then trim_call x else Inr (JStr []))"

text \<open>The object literal of the new record, its members evaluated in order after
  the id.\<close>

definition mock_build :: "int \<Rightarrow> atendimento \<Rightarrow> js_error + mock_record" where
  "mock_build i body =
     (case trim_call (nome body) of Inl e \<Rightarrow> Inl e | Inr n \<Rightarrow>
     (case trim_call (profissional body) of Inl e \<Rightarrow> Inl e | Inr p \<Rightarrow>
     (case trim_call (tipo body) of Inl e \<Rightarrow> Inl e | Inr t \<Rightarrow>
     (case trim_or_empty (observacoes body) of Inl e \<Rightarrow> Inl e | Inr ob \<Rightarrow>
        Inr \<lparr>m_id = i, m_nome = n, m_profissional = p, m_data = data body,
             m_dataISO = data body, m_tipo = t, m_observacoes = ob\<rparr>))))"

text \<open>The mock server's \<open>formatDate\<close> is \<open>formatDate\<close> above with the host function
  \<open>new Date(dateISO + 'T00:00:00').toLocaleDateString('pt-BR')\<close> for \<open>toLocale\<close>.\<close>

definition formatted :: "(jsval \<Rightarrow> jsstring) \<Rightarrow> mock_record \<Rightarrow> mock_record" where
  "formatted toLocale r = r\<lparr>m_data := JStr (formatDate toLocale (m_dataISO r))\<rparr>"

fun findIndex :: "('a \<Rightarrow> bool) \<Rightarrow> 'a list \<Rightarrow> nat option" where
  "findIndex P [] = None"
| "findIndex P (x # xs) =
     (if P x then Some 0 else case findIndex P xs of None \<Rightarrow> None | Some n \<Rightarrow> Some (Suc n))"

text \<open>\<open>xs.splice(index, 1)\<close>.\<close>

definition splice1 :: "nat \<Rightarrow> 'a list \<Rightarrow> 'a list" where
  "splice1 index xs = take index xs @ drop (Suc index) xs"


definition mock_post ::
  "(jsval \<Rightarrow> jsstring) \<Rightarrow> atendimento \<Rightarrow> mock_state \<Rightarrow> mock_record response \<times> mock_state"
  where
  "mock_post toLocale body st =
     (case mock_validate body of
        Inl e \<Rightarrow> (internal_error, st)
      | Inr (Some m) \<Rightarrow> (bad_request m, st)
      | Inr None \<Rightarrow>
         (case mock_build (nextId st) body of
            Inl e \<Rightarrow> (internal_error, st\<lparr>nextId := nextId st + 1\<rparr>)
          | Inr novo \<Rightarrow>
              (\<lparr>status = 201, success = True, payload = Some (formatted toLocale novo),
                message = Some (of_ascii ''Atendimento criado com sucesso'')\<rparr>,
               st\<lparr>nextId := nextId st + 1, atendimentos := atendimentos st @ [novo]\<rparr>)))"

definition mock_put ::
  "(jsval \<Rightarrow> jsstring) \<Rightarrow> jsstring \<Rightarrow> atendimento \<Rightarrow> mock_state
     \<Rightarrow> mock_record response \<times> mock_state" where
  "mock_put toLocale ident body st =
     (case (case parseInt ident of
              None \<Rightarrow> None
            | Some i \<Rightarrow> map_option (Pair i) (findIndex (\<lambda>a. m_id a = i) (atendimentos st))) of
        None \<Rightarrow> (not_found, st)
      | Some (i, index) \<Rightarrow>
         (case mock_validate body of
            Inl e \<Rightarrow> (internal_error, st)
          | Inr (Some m) \<Rightarrow> (bad_request m, st)
          | Inr None \<Rightarrow>
             (case mock_build i body of
                Inl e \<Rightarrow> (internal_error, st)
              | Inr novo \<Rightarrow>
                  (\<lparr>status = 200, success = True, payload = Some (formatted toLocale novo),
                    message = Some (of_ascii ''Atendimento atualizado com sucesso'')\<rparr>,
                   st\<lparr>atendimentos := (atendimentos st)[index := novo]\<rparr>))))"

definition mock_delete :: "jsstring \<Rightarrow> mock_state \<Rightarrow> mock_record response \<times> mock_state" where
  "mock_delete ident st =
     (case (case parseInt ident of
              None \<Rightarrow> None
            | Some i \<Rightarrow> findIndex (\<lambda>a. m_id a = i) (atendimentos st)) of
        None \<Rightarrow> (not_found, st)
      | Some index \<Rightarrow>
          (\<lparr>status = 200, success = True, payload = None,
            message = Some (of_ascii ''Atendimento deletado com sucesso'')\<rparr>,
           st\<lparr>atendimentos := splice1 index (atendimentos st)\<rparr>))"

section \<open>Frontend: APICache\<close>

text \<open>
  The cache is a JavaScript \<open>Map\<close> from key strings to items: an association list in
  insertion order, where \<open>set\<close> on a present key replaces the item in place and
  \<open>delete\<close> removes it. \<open>Date.now()\<close> is passed in as \<open>now\<close>. A result \<open>None\<close> is
  JavaScript's \<open>null\<close>.
\<close>

record 'd cache_item =
  item_data :: 'd
  expiry :: int

type_synonym 'd cache = "(jsstring \<times> 'd cache_item) list"

definition ttl :: int where
  "ttl = 5 * 60 * 1000"

definition cache_get :: "jsstring \<Rightarrow> int \<Rightarrow> 'd cache \<Rightarrow> 'd option \<times> 'd cache" where
  "cache_get key now c =
     (case map_of c key of
        None \<Rightarrow> (None, c)
      | Some item \<Rightarrow>
          if now > expiry item then (None, AList.delete key c)
          else (Some (item_data item), c))"

definition cache_set :: "jsstring \<Rightarrow> 'd \<Rightarrow> int \<Rightarrow> 'd cache \<Rightarrow> 'd cache" where
  "cache_set key d now c = AList.update key \<lparr>item_data = d, expiry = now + ttl\<rparr> c"

definition cache_clear :: "'d cache \<Rightarrow> 'd cache" where
  "cache_clear c = []"

text \<open>\<open>invalidate\<close> walks the keys of the map and deletes each key that includes the
  pattern.\<close>

definition cache_invalidate :: "jsstring \<Rightarrow> 'd cache \<Rightarrow> 'd cache" where
  "cache_invalidate pattern c =
     fold (\<lambda>key c'. if js_includes key pattern then AList.delete key c' else c')
          (map fst c) c"

section \<open>Frontend: StringUtils and AtendimentoFilters\<close>

text \<open>
  \<open>toLowerCase\<close> and \<open>normalize('NFD')\<close> are Unicode functions of the host; they are
  the parameters \<open>lower\<close> and \<open>nfd\<close>. The combining marks that \<open>removeAccents\<close> deletes
  are the code units 0x0300 to 0x036F. The search term and the tipo filter are strings
  (values of form controls); the fields of a record are any JSON values.
\<close>

definition removeAccents :: "(jsstring \<Rightarrow> jsstring) \<Rightarrow> jsstring \<Rightarrow> jsstring" where
  "removeAccents nfd str =
     (if str = [] then [] else filter (\<lambda>c. \<not> (768 \<le> c \<and> c \<le> 879)) (nfd str))"

definition sanitizeForSearch ::
  "(jsstring \<Rightarrow> jsstring) \<Rightarrow> (jsstring \<Rightarrow> jsstring) \<Rightarrow> jsval \<Rightarrow> jsstring" where
  "sanitizeForSearch lower nfd str =
     (case str of
        JStr s \<Rightarrow> if s = [] then [] else removeAccents nfd (js_trim (lower s))
      | _ \<Rightarrow> [])"

definition containsSearchTerm ::
  "(jsstring \<Rightarrow> jsstring) \<Rightarrow> (jsstring \<Rightarrow> jsstring) \<Rightarrow> jsval \<Rightarrow> jsstring \<Rightarrow> bool" where
  "containsSearchTerm lower nfd text searchTerm =
     (if \<not> truthy text \<or> searchTerm = [] then False
      else js_includes (sanitizeForSearch lower nfd text)
                       (sanitizeForSearch lower nfd (JStr searchTerm)))"


record filters =
  f_search :: jsstring
  f_tipo :: jsstring

definition filterBySearch ::
  "(jsstring \<Rightarrow> jsstring) \<Rightarrow> (jsstring \<Rightarrow> jsstring) \<Rightarrow> 'a atendimento_scheme list \<Rightarrow> jsstring
     \<Rightarrow> 'a atendimento_scheme list" where
  "filterBySearch lower nfd as searchTerm =
     (if searchTerm = [] then as
      else filter (\<lambda>a. containsSearchTerm lower nfd (nome a) searchTerm
                      \<or> containsSearchTerm lower nfd (profissional a) searchTerm
                      \<or> containsSearchTerm lower nfd
                           (if truthy (observacoes a) then observacoes a else JStr [])
                           searchTerm) as)"

definition filterByTipo :: "'a atendimento_scheme list \<Rightarrow> jsstring \<Rightarrow> 'a atendimento_scheme list"
  where
  "filterByTipo as t = (if t = [] then as else filter (\<lambda>a. tipo a = JStr t) as)"

definition applyFilters ::
  "(jsstring \<Rightarrow> jsstring) \<Rightarrow> (jsstring \<Rightarrow> jsstring) \<Rightarrow> 'a atendimento_scheme list \<Rightarrow> filters
     \<Rightarrow> 'a atendimento_scheme list" where
  "applyFilters lower nfd as f =
     (let filtered = as;
          filtered = (if f_search f \<noteq> [] then filterBySearch lower nfd filtered (f_search f)
                      else filtered);
          filtered = (if f_tipo f \<noteq> [] then filterByTipo filtered (f_tipo f) else filtered)
      in filtered)"

text \<open>The filter in the words of the specification: a record is kept when its tipo
  equals the tipo filter (if that is non-empty) and one of nome, profissional and
  observacoes contains the search term (if that is non-empty), both sides compared
  without case and accents.\<close>

definition spec_fold :: "(jsstring \<Rightarrow> jsstring) \<Rightarrow> (jsstring \<Rightarrow> jsstring) \<Rightarrow> jsstring \<Rightarrow> jsstring"
  where
  "spec_fold lower nfd s = filter (\<lambda>c. \<not> (768 \<le> c \<and> c \<le> 879)) (nfd (lower s))"

definition spec_contains ::
  "(jsstring \<Rightarrow> jsstring) \<Rightarrow> (jsstring \<Rightarrow> jsstring) \<Rightarrow> jsval \<Rightarrow> jsstring \<Rightarrow> bool" where
  "spec_contains lower nfd field term =
     (case field of
        JStr s \<Rightarrow> js_includes (spec_fold lower nfd s) (spec_fold lower nfd term)
      | _ \<Rightarrow> False)"

definition spec_keeps ::
  "(jsstring \<Rightarrow> jsstring) \<Rightarrow> (jsstring \<Rightarrow> jsstring) \<Rightarrow> filters \<Rightarrow> 'a atendimento_scheme \<Rightarrow> bool"
  where
  "spec_keeps lower nfd f a =
     ((if f_tipo f = [] then True else tipo a = JStr (f_tipo f))
      \<and> (if f_search f = [] then True
         else spec_contains lower nfd (nome a) (f_search f)
            \<or> spec_contains lower nfd (profissional a) (f_search f)
            \<or> spec_contains lower nfd (observacoes a) (f_search f)))"

text \<open>What the code keeps: the same, with the search term and the field trimmed of
  surrounding white space before the comparison, and an empty or absent field never
  matching (a field that is a number or an object has the empty search key).\<close>

definition search_key :: "(jsstring \<Rightarrow> jsstring) \<Rightarrow> (jsstring \<Rightarrow> jsstring) \<Rightarrow> jsstring \<Rightarrow> jsstring"
  where
  "search_key lower nfd s = removeAccents nfd (js_trim (lower s))"

definition code_contains ::
  "(jsstring \<Rightarrow> jsstring) \<Rightarrow> (jsstring \<Rightarrow> jsstring) \<Rightarrow> jsval \<Rightarrow> jsstring \<Rightarrow> bool" where
  "code_contains lower nfd field term =
     (case field of
        JStr s \<Rightarrow> s \<noteq> [] \<and> js_includes (search_key lower nfd s) (search_key lower nfd term)
      | _ \<Rightarrow> truthy field \<and> search_key lower nfd term = [])"

definition code_keeps ::
  "(jsstring \<Rightarrow> jsstring) \<Rightarrow> (jsstring \<Rightarrow> jsstring) \<Rightarrow> filters \<Rightarrow> 'a atendimento_scheme \<Rightarrow> bool"
  where
  "code_keeps lower nfd f a =
     ((if f_tipo f = [] then True else tipo a = JStr (f_tipo f))
      \<and> (if f_search f = [] then True
         else code_contains lower nfd (nome a) (f_search f)
            \<or> code_contains lower nfd (profissional a) (f_search f)
            \<or> code_contains lower nfd (observacoes a) (f_search f)))"

text \<open>Host functions for examples: on strings of ASCII letters \<open>toLowerCase\<close> adds 32 to
  the capitals and \<open>normalize('NFD')\<close> changes nothing.\<close>

definition ascii_lower :: "jsstring \<Rightarrow> jsstring" where
  "ascii_lower s = map (\<lambda>c. if 65 \<le> c \<and> c \<le> 90 then c + 32 else c) s"

definition ascii_nfd :: "jsstring \<Rightarrow> jsstring" where
  "ascii_nfd s = s"

section \<open>Sample states\<close>

definition sample_toLocale :: "jsval \<Rightarrow> jsstring" where
  "sample_toLocale d =
     (if d = JStr (of_ascii ''2024-01-15'') then of_ascii ''15/01/2024''
      else of_ascii ''Invalid Date'')"

definition sample_row :: row where
  "sample_row = new_row sample_body 1 1705300000000"

definition sample_db :: database where
  "sample_db =
     \<lparr>rows = [sample_row], nextval = 2, clock = 1793577600000, issued = [],
      refuses = (\<lambda>st. None)\<rparr>"

definition offline_db :: database where
  "offline_db = sample_db\<lparr>refuses := (\<lambda>st. Some (of_ascii ''connect ECONNREFUSED''))\<rparr>"



definition short_nome_body :: atendimento where
  "short_nome_body = sample_body\<lparr>nome := JStr (of_ascii ''A'')\<rparr>"

definition trailing_space_filters :: filters where
  "trailing_space_filters = \<lparr>f_search = of_ascii ''silva '', f_tipo = []\<rparr>"

section \<open>Properties stated about the servers\<close>

text \<open>The invariant of the mock server's state: every id in the array is below
  \<open>nextId\<close>, and no id occurs twice.\<close>

definition mock_inv :: "mock_state \<Rightarrow> bool" where
  "mock_inv st =
     ((\<forall>a\<in>set (atendimentos st). m_id a < nextId st)
      \<and> distinct (map m_id (atendimentos st)))"


section \<open>Strings: basic facts\<close>

lemma dropWhile_fix: "xs = [] \<or> \<not> P (hd xs) \<Longrightarrow> dropWhile P xs = xs"
  by (cases xs) auto




lemma js_trim_fix:
  "s \<noteq> [] \<Longrightarrow> \<not> isWhiteSpace (hd s) \<Longrightarrow> \<not> isWhiteSpace (last s) \<Longrightarrow> js_trim s = s"
  by (simp add: js_trim_def dropWhile_fix hd_rev)

lemma starts_with_iff: "starts_with s p = (\<exists>b. s = p @ b)"
  by (induction s p rule: starts_with.induct) auto

lemma js_includes_iff: "js_includes s p = (\<exists>a b. s = a @ p @ b)"
proof (induction s)
  case Nil
  then show ?case by simp
next
  case (Cons x xs)
  have "(\<exists>a b. x # xs = a @ p @ b) = ((\<exists>b. x # xs = p @ b) \<or> (\<exists>a b. xs = a @ p @ b))"
  proof
    assume "\<exists>a b. x # xs = a @ p @ b"
    then obtain a b where ab: "x # xs = a @ p @ b" by blast
    show "(\<exists>b. x # xs = p @ b) \<or> (\<exists>a b. xs = a @ p @ b)"
    proof (cases a)
      case Nil
      with ab show ?thesis by auto
    next
      case (Cons y ys)
      with ab have "xs = ys @ p @ b" by simp
      then show ?thesis by blast
    qed
  next
    assume "(\<exists>b. x # xs = p @ b) \<or> (\<exists>a b. xs = a @ p @ b)"
    then show "\<exists>a b. x # xs = a @ p @ b"
    proof
      assume "\<exists>b. x # xs = p @ b"
      then obtain b where "x # xs = [] @ p @ b" by auto
      then show ?thesis by blast
    next
      assume "\<exists>a b. xs = a @ p @ b"
      then obtain a b where "x # xs = (x # a) @ p @ b" by auto
      then show ?thesis by blast
    qed
  qed
  with Cons show ?case
    by (simp add: starts_with_iff)
qed

section \<open>Backend validation (C1)\<close>










section \<open>APICache (C6)\<close>

lemma fold_invalidate:
  "fold (\<lambda>key c'. if js_includes key p then AList.delete key c' else c') ks c
     = filter (\<lambda>(key, item). \<not> (key \<in> set ks \<and> js_includes key p)) c"
proof (induction ks arbitrary: c)
  case Nil
  then show ?case by simp
next
  case (Cons k ks)
  show ?case
    by (auto simp: Cons.IH AList.delete_eq intro!: filter_cong)
qed

lemma cache_invalidate_filter:
  "cache_invalidate p c = filter (\<lambda>(key, item). \<not> js_includes key p) c"
  unfolding cache_invalidate_def fold_invalidate
  by (rule filter_cong) (auto simp: rev_image_eqI)

text \<open>
  C6: \<open>set(k, d)\<close> at time \<open>now\<close> binds \<open>k\<close> to \<open>d\<close> with expiry \<open>now + ttl\<close> (5 minutes)
  and leaves the other keys alone; a \<open>get(k)\<close> at a time up to that expiry returns \<open>d\<close>
  and keeps the cache; a \<open>get(k)\<close> after the expiry returns null and removes the entry;
  a \<open>get\<close> of a key that is not in the cache returns null; in general a \<open>get\<close> is
  decided by the item that the key is bound to; \<open>invalidate(p)\<close> keeps, in order,
  exactly the entries whose key does not include \<open>p\<close>.
\<close>

theorem api_cache_get_set_invalidate:
  "map_of (cache_set k d now c) = (map_of c)(k \<mapsto> \<lparr>item_data = d, expiry = now + ttl\<rparr>)
   \<and> (now' \<le> now + ttl \<longrightarrow>
        cache_get k now' (cache_set k d now c) = (Some d, cache_set k d now c))
   \<and> (now + ttl < now' \<longrightarrow>
        cache_get k now' (cache_set k d now c) = (None, AList.delete k c))
   \<and> (map_of c k = None \<longrightarrow> cache_get k now' c = (None, c))
   \<and> (map_of c k = Some item \<longrightarrow>
        cache_get k now' c =
          (if expiry item < now' then (None, AList.delete k c)
           else (Some (item_data item), c)))
   \<and> map_of (AList.delete k c) = (map_of c)(k := None)
   \<and> cache_invalidate p c = filter (\<lambda>(key, item). \<not> js_includes key p) c
   \<and> map_of (cache_invalidate p c) k = (if js_includes k p then None else map_of c k)"
proof (intro conjI impI)
  show "map_of (cache_set k d now c) = (map_of c)(k \<mapsto> \<lparr>item_data = d, expiry = now + ttl\<rparr>)"
    by (simp add: cache_set_def update_conv')
  show "cache_get k now' (cache_set k d now c) = (Some d, cache_set k d now c)"
    if "now' \<le> now + ttl"
    using that by (simp add: cache_get_def cache_set_def update_conv')
  show "cache_get k now' (cache_set k d now c) = (None, AList.delete k c)"
    if "now + ttl < now'"
    using that by (simp add: cache_get_def cache_set_def update_conv' delete_update_same)
  show "cache_get k now' c = (None, c)" if "map_of c k = None"
    using that by (simp add: cache_get_def)
  show "cache_get k now' c =
          (if expiry item < now' then (None, AList.delete k c)
           else (Some (item_data item), c))" if "map_of c k = Some item"
    using that by (simp add: cache_get_def)
  show "map_of (AList.delete k c) = (map_of c)(k := None)"
    by (rule delete_conv')
  show "cache_invalidate p c = filter (\<lambda>(key, item). \<not> js_includes key p) c"
    by (rule cache_invalidate_filter)
  show "map_of (cache_invalidate p c) k = (if js_includes k p then None else map_of c k)"
    unfolding cache_invalidate_filter
    by (induction c) auto
qed

theorem api_cache_get_set_invalidate_witness:
  "cache_get (of_ascii ''get_atendimentos'') 300000
       (cache_set (of_ascii ''get_atendimentos'') (7::nat) 0 [])
     = (Some 7, cache_set (of_ascii ''get_atendimentos'') 7 0 [])
   \<and> cache_get (of_ascii ''get_atendimentos'') 300001
       (cache_set (of_ascii ''get_atendimentos'') (7::nat) 0 [])
     = (None, [])
   \<and> cache_get (of_ascii ''get_atendimentos'') 300000 ([] :: nat cache) = (None, [])"
proof -
  note within = api_cache_get_set_invalidate
      [where k = "of_ascii ''get_atendimentos''" and d = "7::nat" and now = 0
         and c = "[]" and now' = 300000]
  note elapsed = api_cache_get_set_invalidate
      [where k = "of_ascii ''get_atendimentos''" and d = "7::nat" and now = 0
         and c = "[]" and now' = 300001]
  have "(300000::int) \<le> 0 + ttl" and "(0::int) + ttl < 300001"
    by (simp_all add: ttl_def)
  moreover have "map_of ([] :: nat cache) (of_ascii ''get_atendimentos'') = None"
    by simp
  ultimately show ?thesis
    using within elapsed by (simp del: of_nat_numeral)
qed

section \<open>AtendimentoFilters (C7)\<close>

lemma contains_code:
  "t \<noteq> [] \<Longrightarrow> containsSearchTerm lower nfd x t = code_contains lower nfd x t"
  by (cases x)
     (auto simp: containsSearchTerm_def code_contains_def sanitizeForSearch_def
        search_key_def)

lemma contains_code_obs:
  "t \<noteq> [] \<Longrightarrow>
   containsSearchTerm lower nfd (if truthy x then x else JStr []) t
     = code_contains lower nfd x t"
  by (cases x)
     (auto simp: containsSearchTerm_def code_contains_def sanitizeForSearch_def
        search_key_def)

lemma filterBySearch_code:
  assumes "t \<noteq> []"
  shows "filterBySearch lower nfd as t
     = filter (\<lambda>a. code_contains lower nfd (nome a) t
                    \<or> code_contains lower nfd (profissional a) t
                    \<or> code_contains lower nfd (observacoes a) t) as"
  unfolding filterBySearch_def contains_code_obs [OF assms]
  unfolding contains_code [OF assms]
  using assms by simp

lemma search_key_silva:
  "search_key ascii_lower ascii_nfd (of_ascii ''silva '') = of_ascii ''silva''"
  by (simp add: search_key_def removeAccents_def ascii_lower_def ascii_nfd_def of_ascii_def
      js_trim_def isWhiteSpace_def)

lemma search_key_maria_silva:
  "search_key ascii_lower ascii_nfd (of_ascii ''Maria Silva'') = of_ascii ''maria silva''"
  by (simp add: search_key_def removeAccents_def ascii_lower_def ascii_nfd_def of_ascii_def
      js_trim_def isWhiteSpace_def)

text \<open>
  C7, as stated, fails: the search term is trimmed before the comparison. With the
  term \<open>silva\<close> followed by a space, the record of Maria Silva is returned, although
  none of its three fields contains that term as a substring.
\<close>

theorem applyFilters_trims_search_term:
  "applyFilters ascii_lower ascii_nfd [sample_body] trailing_space_filters = [sample_body]
   \<and> filter (spec_keeps ascii_lower ascii_nfd trailing_space_filters) [sample_body] = []"
proof
  have "code_contains ascii_lower ascii_nfd (nome sample_body) (of_ascii ''silva '')"
    unfolding code_contains_def sample_body_def
    by (simp add: search_key_silva search_key_maria_silva) (simp add: of_ascii_def)
  moreover have nonempty: "of_ascii ''silva '' \<noteq> []"
    by (simp add: of_ascii_def)
  ultimately have "filterBySearch ascii_lower ascii_nfd [sample_body] (of_ascii ''silva '')
                     = [sample_body]"
    by (simp add: filterBySearch_code)
  with nonempty show "applyFilters ascii_lower ascii_nfd [sample_body] trailing_space_filters
               = [sample_body]"
    by (simp add: applyFilters_def trailing_space_filters_def filterByTipo_def Let_def)
  show "filter (spec_keeps ascii_lower ascii_nfd trailing_space_filters) [sample_body] = []"
    by (simp add: spec_keeps_def trailing_space_filters_def spec_contains_def spec_fold_def
        sample_body_def ascii_lower_def ascii_nfd_def of_ascii_def)
qed

text \<open>
  C7, amended: \<open>applyFilters\<close> returns exactly the records of the input list, in
  their original order, whose tipo equals the tipo filter (when that filter is
  non-empty) and of which nome, profissional or observacoes, a non-empty string,
  contains the search term after both have been lower-cased, trimmed of surrounding
  white space and stripped of accents (when the search term is non-empty); with both
  filters empty the list is returned unchanged.
\<close>

theorem applyFilters_keeps:
  "applyFilters lower nfd as f = filter (code_keeps lower nfd f) as
   \<and> (f_search f = [] \<and> f_tipo f = [] \<longrightarrow> applyFilters lower nfd as f = as)"
proof -
  have kept: "applyFilters lower nfd as f = filter (code_keeps lower nfd f) as"
  proof (cases "f_search f = []")
    case True
    then have eq: "code_keeps lower nfd f = (\<lambda>a. f_tipo f = [] \<or> tipo a = JStr (f_tipo f))"
      by (auto simp: code_keeps_def fun_eq_iff)
    show ?thesis
      unfolding eq using True by (simp add: applyFilters_def filterByTipo_def)
  next
    case False
    then have eq: "code_keeps lower nfd f =
        (\<lambda>a. (code_contains lower nfd (nome a) (f_search f)
               \<or> code_contains lower nfd (profissional a) (f_search f)
               \<or> code_contains lower nfd (observacoes a) (f_search f))
              \<and> (f_tipo f = [] \<or> tipo a = JStr (f_tipo f)))"
      by (auto simp: code_keeps_def fun_eq_iff)
    show ?thesis
      unfolding eq using False
      by (cases "f_tipo f = []")
         (simp_all add: applyFilters_def filterByTipo_def filterBySearch_code Let_def)
  qed
  moreover have "filter (code_keeps lower nfd f) as = as" if "f_search f = []" "f_tipo f = []"
    using that by (simp add: code_keeps_def)
  ultimately show ?thesis
    by simp
qed

theorem applyFilters_keeps_witness:
  "f_search \<lparr>f_search = [], f_tipo = []\<rparr> = [] \<and> f_tipo \<lparr>f_search = [], f_tipo = []\<rparr> = []
   \<and> applyFilters ascii_lower ascii_nfd [sample_body, long_body] \<lparr>f_search = [], f_tipo = []\<rparr>
       = [sample_body, long_body]"
proof -
  have none: "f_search \<lparr>f_search = [], f_tipo = []\<rparr> = []
              \<and> f_tipo \<lparr>f_search = [], f_tipo = []\<rparr> = []"
    by simp
  with applyFilters_keeps
         [of ascii_lower ascii_nfd "[sample_body, long_body]" "\<lparr>f_search = [], f_tipo = []\<rparr>"]
  have "applyFilters ascii_lower ascii_nfd [sample_body, long_body]
          \<lparr>f_search = [], f_tipo = []\<rparr> = [sample_body, long_body]"
    by blast
  with none show ?thesis
    by blast
qed

section \<open>parseInt and the id parameter\<close>

lemma parseInt_Nil: "parseInt [] = None"
  by (simp add: parseInt_def)




lemma parseInt_abc: "parseInt (of_ascii ''abc'') = None"
  by (simp add: parseInt_def of_ascii_def isWhiteSpace_def hasHexPrefix_def isDigit_def
      digitValue_def)


lemma parseInt_1: "parseInt (of_ascii ''1'') = Some 1"
  by (simp add: parseInt_def of_ascii_def isWhiteSpace_def hasHexPrefix_def isDigit_def
      digitValue_def digitsToNat_def)

lemma parseInt_7: "parseInt (of_ascii ''7'') = Some 7"
  by (simp add: parseInt_def of_ascii_def isWhiteSpace_def hasHexPrefix_def isDigit_def
      digitValue_def digitsToNat_def)







section \<open>Reading and deleting by id\<close>

lemma filter_first:
  "\<exists>r\<in>set xs. P r \<Longrightarrow> \<exists>r rs. filter P xs = r # rs \<and> r \<in> set xs \<and> P r"
  by (induction xs) auto

lemma filter_none: "\<forall>r\<in>set xs. \<not> P r \<Longrightarrow> filter P xs = []"
  by (induction xs) auto

lemma findIndex_None: "(findIndex P xs = None) = (\<forall>x\<in>set xs. \<not> P x)"
  by (induction xs) (auto split: option.splits)

lemma findIndex_Some:
  "findIndex P xs = Some n \<Longrightarrow>
     \<exists>pre a post. xs = pre @ a # post \<and> P a \<and> (\<forall>b\<in>set pre. \<not> P b) \<and> n = length pre"
proof (induction xs arbitrary: n)
  case Nil
  then show ?case by simp
next
  case (Cons x xs)
  show ?case
  proof (cases "P x")
    case True
    with Cons.prems have "n = 0" by simp
    with True show ?thesis by (intro exI [of _ "[]"]) auto
  next
    case False
    with Cons.prems obtain m where m: "findIndex P xs = Some m" "n = Suc m"
      by (auto split: option.splits)
    from Cons.IH [OF m(1)] obtain pre a post where
      "xs = pre @ a # post" "P a" "\<forall>b\<in>set pre. \<not> P b" "m = length pre"
      by blast
    with False m(2) show ?thesis
      by (intro exI [of _ "x # pre"]) auto
  qed
qed








lemma controller_destroy_found:
  assumes "parseInt ident = Some i" "refuses db (DeleteById i) = None"
    "\<exists>r\<in>set (rows db). r_id r = i"
  shows "status (fst (controller_destroy ident db)) = 200
         \<and> rows (snd (controller_destroy ident db)) = filter (\<lambda>r. r_id r \<noteq> i) (rows db)"
proof -
  from assms(3) obtain r rs where
    "filter (\<lambda>r. r_id r = i) (rows db) = r # rs"
    using filter_first [of "rows db" "\<lambda>r. r_id r = i"] by blast
  moreover from assms(1) have "ident \<noteq> []"
    using parseInt_Nil by auto
  ultimately show ?thesis
    using assms(1,2)
    by (simp add: controller_destroy_def service_delete_def query_def)
qed

lemma controller_destroy_missing:
  assumes "parseInt ident = Some i" "refuses db (DeleteById i) = None"
    "\<forall>r\<in>set (rows db). r_id r \<noteq> i"
  shows "fst (controller_destroy ident db) = not_found
         \<and> rows (snd (controller_destroy ident db)) = rows db"
proof -
  from assms(3) have "filter (\<lambda>r. r_id r = i) (rows db) = []"
    "filter (\<lambda>r. r_id r \<noteq> i) (rows db) = rows db"
    by (simp_all add: filter_none)
  moreover from assms(1) have "ident \<noteq> []"
    using parseInt_Nil by auto
  ultimately show ?thesis
    using assms(1,2)
    by (simp add: controller_destroy_def service_delete_def query_def)
qed

lemma controller_destroy_refused:
  assumes "parseInt ident = Some i" "refuses db (DeleteById i) = Some m"
  shows "fst (controller_destroy ident db) = internal_error
         \<and> rows (snd (controller_destroy ident db)) = rows db"
proof -
  from assms(1) have "ident \<noteq> []"
    using parseInt_Nil by auto
  then show ?thesis
    using assms by (simp add: controller_destroy_def service_delete_def query_def)
qed

lemma controller_destroy_bad:
  "parseInt ident = None \<Longrightarrow> controller_destroy ident db = (bad_id, db)"
  by (simp add: controller_destroy_def)

lemma mock_delete_found:
  assumes "parseInt ident = Some i" "\<exists>a\<in>set (atendimentos st). m_id a = i"
  shows "status (fst (mock_delete ident st)) = 200
         \<and> (\<exists>pre a post. atendimentos st = pre @ a # post \<and> m_id a = i
               \<and> (\<forall>b\<in>set pre. m_id b \<noteq> i)
               \<and> atendimentos (snd (mock_delete ident st)) = pre @ post)"
proof -
  from assms(2) obtain n where n: "findIndex (\<lambda>a. m_id a = i) (atendimentos st) = Some n"
    by (cases "findIndex (\<lambda>a. m_id a = i) (atendimentos st)") (auto simp: findIndex_None)
  from findIndex_Some [OF n] obtain pre a post where split:
    "atendimentos st = pre @ a # post" "m_id a = i" "\<forall>b\<in>set pre. m_id b \<noteq> i" "n = length pre"
    by blast
  then have "splice1 n (atendimentos st) = pre @ post"
    by (simp add: splice1_def)
  with n split assms(1) show ?thesis
    by (auto simp: mock_delete_def)
qed

lemma mock_delete_missing:
  assumes "\<forall>a\<in>set (atendimentos st). Some (m_id a) \<noteq> parseInt ident"
  shows "mock_delete ident st = (not_found, st)"
proof (cases "parseInt ident")
  case None
  then show ?thesis by (simp add: mock_delete_def)
next
  case (Some i)
  with assms have "findIndex (\<lambda>a. m_id a = i) (atendimentos st) = None"
    by (auto simp: findIndex_None)
  with Some show ?thesis by (simp add: mock_delete_def)
qed

section \<open>The id parameter in the controller (C10)\<close>

lemma parseInt_12abc: "parseInt (of_ascii ''12abc'') = Some 12"
  by (simp add: parseInt_def of_ascii_def isWhiteSpace_def hasHexPrefix_def isDigit_def
      digitValue_def digitsToNat_def)







section \<open>GET /api/atendimento/:id (C4)\<close>




section \<open>DELETE /api/atendimento/:id (C5)\<close>

text \<open>
  C5, as stated, fails for the same reason as C4: the mock server answers an id that
  is not a number with 404.
\<close>

theorem mock_delete_bad_id_is_404:
  "parseInt (of_ascii ''abc'') = None
   \<and> status (fst (mock_delete (of_ascii ''abc'') mock_init)) = 404"
  by (simp add: parseInt_abc mock_delete_def not_found_def)

text \<open>
  C5, amended. Controller: an id on which \<open>parseInt\<close> gives NaN is answered 400 and
  nothing is sent to the database; for any other id, when the query succeeds, the rows
  of the parsed id are removed and the answer is 200 if there was one, and the answer
  is 404 with the table unchanged if there was none; when the query throws, the
  answer is 500 and the table is unchanged. Mock server: the first record of
  the parsed id is removed and the answer is 200 if the array has one; otherwise,
  an id that is not a number included, the answer is 404 and the state is unchanged.
\<close>

theorem delete_by_id_responses:
  "(parseInt ident = None \<longrightarrow> controller_destroy ident db = (bad_id, db))
   \<and> (parseInt ident = Some i \<and> refuses db (DeleteById i) = None
        \<and> (\<exists>r\<in>set (rows db). r_id r = i) \<longrightarrow>
       status (fst (controller_destroy ident db)) = 200
       \<and> rows (snd (controller_destroy ident db)) = filter (\<lambda>r. r_id r \<noteq> i) (rows db))
   \<and> (parseInt ident = Some i \<and> refuses db (DeleteById i) = None
        \<and> (\<forall>r\<in>set (rows db). r_id r \<noteq> i) \<longrightarrow>
       fst (controller_destroy ident db) = not_found
       \<and> rows (snd (controller_destroy ident db)) = rows db)
   \<and> (parseInt ident = Some i \<and> refuses db (DeleteById i) = Some m \<longrightarrow>
       fst (controller_destroy ident db) = internal_error
       \<and> rows (snd (controller_destroy ident db)) = rows db)
   \<and> (parseInt ident = Some i \<and> (\<exists>a\<in>set (atendimentos st). m_id a = i) \<longrightarrow>
       status (fst (mock_delete ident st)) = 200
       \<and> (\<exists>pre a post. atendimentos st = pre @ a # post \<and> m_id a = i
              \<and> (\<forall>b\<in>set pre. m_id b \<noteq> i)
              \<and> atendimentos (snd (mock_delete ident st)) = pre @ post))
   \<and> ((\<forall>a\<in>set (atendimentos st). Some (m_id a) \<noteq> parseInt ident) \<longrightarrow>
       mock_delete ident st = (not_found, st))"
proof -
  have "parseInt ident = None \<longrightarrow> controller_destroy ident db = (bad_id, db)"
    using controller_destroy_bad [of ident db] by blast
  moreover have "parseInt ident = Some i \<and> refuses db (DeleteById i) = None
        \<and> (\<exists>r\<in>set (rows db). r_id r = i) \<longrightarrow>
       status (fst (controller_destroy ident db)) = 200
       \<and> rows (snd (controller_destroy ident db)) = filter (\<lambda>r. r_id r \<noteq> i) (rows db)"
    using controller_destroy_found [of ident i db] by blast
  moreover have "parseInt ident = Some i \<and> refuses db (DeleteById i) = None
        \<and> (\<forall>r\<in>set (rows db). r_id r \<noteq> i) \<longrightarrow>
       fst (controller_destroy ident db) = not_found
       \<and> rows (snd (controller_destroy ident db)) = rows db"
    using controller_destroy_missing [of ident i db] by blast
  moreover have "parseInt ident = Some i \<and> refuses db (DeleteById i) = Some m \<longrightarrow>
       fst (controller_destroy ident db) = internal_error
       \<and> rows (snd (controller_destroy ident db)) = rows db"
    using controller_destroy_refused [of ident i db m] by blast
  moreover have "parseInt ident = Some i \<and> (\<exists>a\<in>set (atendimentos st). m_id a = i) \<longrightarrow>
       status (fst (mock_delete ident st)) = 200
       \<and> (\<exists>pre a post. atendimentos st = pre @ a # post \<and> m_id a = i
              \<and> (\<forall>b\<in>set pre. m_id b \<noteq> i)
              \<and> atendimentos (snd (mock_delete ident st)) = pre @ post)"
    using mock_delete_found [of ident i st] by blast
  moreover have "(\<forall>a\<in>set (atendimentos st). Some (m_id a) \<noteq> parseInt ident) \<longrightarrow>
       mock_delete ident st = (not_found, st)"
    using mock_delete_missing [of st ident] by blast
  ultimately show ?thesis
    by (intro conjI)
qed

theorem delete_by_id_responses_witness:
  "fst (controller_destroy (of_ascii ''abc'') sample_db) = bad_id
   \<and> status (fst (controller_destroy (of_ascii ''1'') sample_db)) = 200
   \<and> rows (snd (controller_destroy (of_ascii ''1'') sample_db)) = []
   \<and> status (fst (controller_destroy (of_ascii ''7'') sample_db)) = 404
   \<and> status (fst (mock_delete (of_ascii ''1'') mock_init)) = 200
   \<and> status (fst (mock_delete (of_ascii ''7'') mock_init)) = 404
   \<and> status (fst (controller_destroy (of_ascii ''1'') offline_db)) = 500"
proof -
  note nan = delete_by_id_responses [where ident = "of_ascii ''abc''" and db = sample_db]
  note one = delete_by_id_responses
      [where ident = "of_ascii ''1''" and db = sample_db and i = 1 and st = mock_init]
  note seven = delete_by_id_responses
      [where ident = "of_ascii ''7''" and db = sample_db and i = 7 and st = mock_init]
  note offline = delete_by_id_responses
      [where ident = "of_ascii ''1''" and db = offline_db and i = 1
         and m = "of_ascii ''connect ECONNREFUSED''"]
  have a: "fst (controller_destroy (of_ascii ''abc'') sample_db) = bad_id"
    using nan parseInt_abc by simp
  have "parseInt (of_ascii ''1'') = Some 1 \<and> refuses sample_db (DeleteById 1) = None
        \<and> (\<exists>r\<in>set (rows sample_db). r_id r = 1)"
    by (simp add: parseInt_1 sample_db_def sample_row_def new_row_def)
  with one have "status (fst (controller_destroy (of_ascii ''1'') sample_db)) = 200
       \<and> rows (snd (controller_destroy (of_ascii ''1'') sample_db))
           = filter (\<lambda>r. r_id r \<noteq> 1) (rows sample_db)"
    by blast
  moreover have "filter (\<lambda>r. r_id r \<noteq> 1) (rows sample_db) = []"
    by (simp add: sample_db_def sample_row_def new_row_def)
  ultimately have b: "status (fst (controller_destroy (of_ascii ''1'') sample_db)) = 200"
    and b': "rows (snd (controller_destroy (of_ascii ''1'') sample_db)) = []"
    by simp_all
  have "parseInt (of_ascii ''7'') = Some 7 \<and> refuses sample_db (DeleteById 7) = None
        \<and> (\<forall>r\<in>set (rows sample_db). r_id r \<noteq> 7)"
    by (simp add: parseInt_7 sample_db_def sample_row_def new_row_def)
  with seven have "fst (controller_destroy (of_ascii ''7'') sample_db) = not_found"
    by blast
  then have c: "status (fst (controller_destroy (of_ascii ''7'') sample_db)) = 404"
    by (simp add: not_found_def)
  have "parseInt (of_ascii ''1'') = Some 1 \<and> (\<exists>a\<in>set (atendimentos mock_init). m_id a = 1)"
    by (simp add: parseInt_1 mock_init_def)
  with one have d: "status (fst (mock_delete (of_ascii ''1'') mock_init)) = 200"
    by blast
  have "\<forall>a\<in>set (atendimentos mock_init). Some (m_id a) \<noteq> parseInt (of_ascii ''7'')"
    by (simp add: mock_init_def parseInt_7)
  with seven have "mock_delete (of_ascii ''7'') mock_init = (not_found, mock_init)"
    by blast
  then have e: "status (fst (mock_delete (of_ascii ''7'') mock_init)) = 404"
    by (simp add: not_found_def)
  have "parseInt (of_ascii ''1'') = Some 1
        \<and> refuses offline_db (DeleteById 1) = Some (of_ascii ''connect ECONNREFUSED'')"
    by (simp add: parseInt_1 offline_db_def)
  with offline have "fst (controller_destroy (of_ascii ''1'') offline_db) = internal_error"
    by blast
  then have f: "status (fst (controller_destroy (of_ascii ''1'') offline_db)) = 500"
    by (simp add: internal_error_def)
  from a b b' c d e f show ?thesis
    by blast
qed

section \<open>The mock server's state\<close>

lemma mock_build_id: "mock_build i body = Inr r \<Longrightarrow> m_id r = i"
  by (auto simp: mock_build_def split: sum.splits)

lemma mock_inv_init: "mock_inv mock_init"
  by (simp add: mock_inv_def mock_init_def)

lemma mock_inv_post: "mock_inv st \<Longrightarrow> mock_inv (snd (mock_post toLocale body st))"
  by (auto simp: mock_post_def mock_inv_def dest!: mock_build_id
      split: sum.splits option.splits)

lemma mock_inv_put:
  assumes "mock_inv st"
  shows "mock_inv (snd (mock_put toLocale ident body st))"
proof (cases "mock_put toLocale ident body st = (fst (mock_put toLocale ident body st), st)")
  case True
  then have "snd (mock_put toLocale ident body st) = st"
    by (metis snd_conv)
  with assms show ?thesis by simp
next
  case False
  then obtain i index novo where
    i: "parseInt ident = Some i"
    and index: "findIndex (\<lambda>a. m_id a = i) (atendimentos st) = Some index"
    and novo: "mock_build i body = Inr novo"
    and st': "snd (mock_put toLocale ident body st)
                = st\<lparr>atendimentos := (atendimentos st)[index := novo]\<rparr>"
    by (auto simp: mock_put_def split: option.splits sum.splits)
  from findIndex_Some [OF index] obtain pre a post where split:
    "atendimentos st = pre @ a # post" "m_id a = i" "index = length pre"
    by blast
  from novo have "m_id novo = i"
    by (rule mock_build_id)
  with split have "map m_id ((atendimentos st)[index := novo]) = map m_id (atendimentos st)"
    by simp
  moreover from split \<open>m_id novo = i\<close> assms
  have "\<forall>b\<in>set ((atendimentos st)[index := novo]). m_id b < nextId st"
    by (auto simp: mock_inv_def)
  ultimately show ?thesis
    using assms by (simp add: st' mock_inv_def)
qed

lemma mock_inv_delete:
  assumes "mock_inv st"
  shows "mock_inv (snd (mock_delete ident st))"
proof (cases "case parseInt ident of None \<Rightarrow> None
              | Some i \<Rightarrow> findIndex (\<lambda>a. m_id a = i) (atendimentos st)")
  case None
  with assms show ?thesis by (simp add: mock_delete_def)
next
  case (Some index)
  then obtain i where "findIndex (\<lambda>a. m_id a = i) (atendimentos st) = Some index"
    by (auto split: option.splits)
  from findIndex_Some [OF this] obtain pre a post where split:
    "atendimentos st = pre @ a # post" "index = length pre"
    by blast
  then have "splice1 index (atendimentos st) = pre @ post"
    by (simp add: splice1_def)
  with Some split assms show ?thesis
    by (auto simp: mock_delete_def mock_inv_def)
qed

section \<open>Creating a record\<close>




lemma service_create_invalid:
  assumes "sanitize_then_validate newDate now body = Inr v" "\<not> isValid v"
  shows "service_create newDate now toLocale body db
           = (Inl (Error (dados_invalidos @ [58, 32] @ join_comma (errors v))), db)"
  using assms
  by (auto simp: service_create_def sanitize_then_validate_def split: sum.splits)

lemma service_update_invalid:
  assumes "sanitize_then_validate newDate now body = Inr v" "\<not> isValid v"
  shows "service_update newDate now toLocale i body db
           = (Inl (Error (dados_invalidos @ [58, 32] @ join_comma (errors v))), db)"
  using assms
  by (auto simp: service_update_def sanitize_then_validate_def split: sum.splits)


lemma service_update_throws:
  assumes "sanitize_then_validate newDate now body = Inl e"
  shows "service_update newDate now toLocale i body db = (Inl e, db)"
  using assms
  by (auto simp: service_update_def sanitize_then_validate_def split: sum.splits)

lemma mock_post_invalid:
  "mock_validate body = Inr (Some m) \<Longrightarrow> mock_post toLocale body st = (bad_request m, st)"
  by (simp add: mock_post_def)

lemma mock_post_400:
  "status (fst (mock_post toLocale body st)) = 400 \<Longrightarrow> snd (mock_post toLocale body st) = st"
  by (auto simp: mock_post_def internal_error_def split: sum.splits option.splits)













section \<open>Sample requests, evaluated\<close>



lemma sanitize_short_nome_body: "sanitizeAtendimento short_nome_body = Inr short_nome_body"
  by (simp add: sanitizeAtendimento_def opt_trim_def short_nome_body_def sample_body_def
      js_trim_fix of_ascii_def isWhiteSpace_def)

lemma validate_short_nome_body:
  "validateAtendimento sample_newDate sample_now short_nome_body
     = Inr \<lparr>isValid = False, errors = [msg_nome]\<rparr>"
  by (simp add: validateAtendimento_def short_nome_body_def sample_body_def too_short_def
      js_trim_fix of_ascii_def isWhiteSpace_def is_future_def sample_newDate_def
      sample_now_def includes_tipo_def tiposValidos_def)




lemma mock_validate_short_nome: "mock_validate short_nome_body = Inr (Some msg_nome)"
  by (simp add: mock_validate_def short_nome_body_def sample_body_def too_short_def
      js_trim_fix of_ascii_def isWhiteSpace_def)




section \<open>The mock server's invariant (C9)\<close>

text \<open>
  C9: in the in-memory mock server, "\<open>nextId\<close> is strictly greater than every id in
  the array, and the ids of the array are pairwise distinct" holds in the initial state
  and is preserved by every request that changes the state: POST (create), PUT (update)
  and DELETE, whatever their outcome.
\<close>

theorem mock_invariant:
  "mock_inv mock_init
   \<and> (mock_inv st \<longrightarrow>
        mock_inv (snd (mock_post toLocale body st))
        \<and> mock_inv (snd (mock_put toLocale ident body st))
        \<and> mock_inv (snd (mock_delete ident st)))"
  using mock_inv_init mock_inv_post mock_inv_put mock_inv_delete by blast

theorem mock_invariant_witness:
  "mock_inv mock_init
   \<and> mock_inv (snd (mock_post sample_toLocale sample_body mock_init))
   \<and> mock_inv (snd (mock_put sample_toLocale (of_ascii ''1'') sample_body mock_init))
   \<and> mock_inv (snd (mock_delete (of_ascii ''1'') mock_init))"
  using mock_invariant [of mock_init sample_toLocale sample_body "of_ascii ''1''"]
  by blast

section \<open>Invalid data and the stored collection (C8)\<close>

text \<open>
  C8: when the validation of a create or of an update reports errors, the stored
  collection is left unchanged. \<open>AtendimentoService.create\<close> and \<open>update\<close> throw the
  error of invalid data and return the database as it was, no statement issued; the
  mock server's POST handler answers 400 and returns its state as it was.
\<close>

theorem invalid_data_leaves_store_unchanged:
  "(sanitize_then_validate newDate now body = Inr v \<and> \<not> isValid v \<longrightarrow>
      service_create newDate now toLocale body db
        = (Inl (Error (dados_invalidos @ [58, 32] @ join_comma (errors v))), db)
      \<and> service_update newDate now toLocale i body db
        = (Inl (Error (dados_invalidos @ [58, 32] @ join_comma (errors v))), db))
   \<and> (mock_validate body = Inr (Some m) \<longrightarrow>
        mock_post toLocale' body st = (bad_request m, st))
   \<and> (status (fst (mock_post toLocale' body st)) = 400 \<longrightarrow>
        snd (mock_post toLocale' body st) = st)"
  using service_create_invalid service_update_invalid mock_post_invalid mock_post_400
  by (intro conjI impI) blast+

theorem invalid_data_leaves_store_unchanged_witness:
  "snd (service_create sample_newDate sample_now sample_toLocale short_nome_body sample_db)
     = sample_db
   \<and> snd (service_update sample_newDate sample_now sample_toLocale 1 short_nome_body sample_db)
     = sample_db
   \<and> mock_post sample_toLocale short_nome_body mock_init = (bad_request msg_nome, mock_init)
   \<and> status (fst (mock_post sample_toLocale short_nome_body mock_init)) = 400"
proof -
  have invalid: "sanitize_then_validate sample_newDate sample_now short_nome_body
          = Inr \<lparr>isValid = False, errors = [msg_nome]\<rparr>
        \<and> \<not> isValid \<lparr>isValid = False, errors = [msg_nome]\<rparr>"
    by (simp add: sanitize_then_validate_def sanitize_short_nome_body validate_short_nome_body)
  note law = invalid_data_leaves_store_unchanged
               [of sample_newDate sample_now short_nome_body
                   "\<lparr>isValid = False, errors = [msg_nome]\<rparr>" sample_toLocale sample_db 1
                   msg_nome sample_toLocale mock_init]
  from law invalid have
    "snd (service_create sample_newDate sample_now sample_toLocale short_nome_body sample_db)
       = sample_db"
    "snd (service_update sample_newDate sample_now sample_toLocale 1 short_nome_body sample_db)
       = sample_db"
    by simp_all
  moreover from law mock_validate_short_nome have
    post: "mock_post sample_toLocale short_nome_body mock_init = (bad_request msg_nome, mock_init)"
    by blast
  moreover from post have
    "status (fst (mock_post sample_toLocale short_nome_body mock_init)) = 400"
    by (simp add: bad_request_def)
  ultimately show ?thesis
    by blast
qed

section \<open>POST /api/atendimento (C3)\<close>




section \<open>The three create handlers compared (C2)\<close>





end
